theory Spec2Isabelle
  imports Complex_Main
begin

section \<open>Python values and exceptions\<close>

text \<open>
  The connector handles three kinds of Python values: strings (or \<open>None\<close>) for the
  credentials, the objects returned by \<open>response.json()\<close>, and the floats of
  \<open>time()\<close>. A parsed JSON document is a \<open>json\<close> value; Python's \<open>None\<close> is
  \<open>JNull\<close>, a \<open>dict\<close> is \<open>JObj\<close> (an association list in insertion order, read with
  \<open>map_of\<close>), a \<open>list\<close> is \<open>JArr\<close>. The dictionaries that the connector builds itself
  (the track records) are \<open>JObj\<close> values too. A finite float is read as the real number
  it denotes; the rounding of a real to the nearest float is a function that the
  operations on floats take as an argument.
\<close>

datatype json =
    JNull
  | JBool bool
  | JInt int
  | JFloat real
  | JStr string
  | JArr "json list"
  | JObj "(string \<times> json) list"

text \<open>
  Every \<open>raise\<close> and every failing built-in operation is a value of \<open>py_error\<close>.
  \<open>Exception\<close> is the plain \<open>Exception(message)\<close> that \<open>authenticate\<close> and
  \<open>make_request\<close> raise; \<open>JSONDecodeError\<close> is what \<open>response.json()\<close> raises on a
  body that is not JSON.
\<close>

datatype py_error =
    ValueError string
  | Exception string
  | JSONDecodeError
  | KeyError json
  | IndexError
  | TypeError
  | AttributeError
  | OverflowError

definition and_then :: "py_error + 'a \<Rightarrow> ('a \<Rightarrow> py_error + 'b) \<Rightarrow> py_error + 'b" where
  "and_then r f = (case r of Inl e \<Rightarrow> Inl e | Inr v \<Rightarrow> f v)"

text \<open>\<open>not x\<close> for a value that is a string or \<open>None\<close>: true for \<open>None\<close> and for \<open>''\<close>.\<close>

definition py_not :: "string option \<Rightarrow> bool" where
  "py_not x = (case x of None \<Rightarrow> True | Some s \<Rightarrow> s = [])"

text \<open>An f-string field \<open>{x}\<close> for a string or \<open>None\<close>.\<close>

definition fmt :: "string option \<Rightarrow> string" where
  "fmt x = (case x of None \<Rightarrow> ''None'' | Some s \<Rightarrow> s)"

text \<open>\<open>str(n)\<close> for an integer, as the f-string of \<open>make_request\<close> formats the status.\<close>

definition digit_char :: "nat \<Rightarrow> char" where
  "digit_char d = ''0123456789'' ! d"

fun str_nat :: "nat \<Rightarrow> string" where
  "str_nat n = (if n < 10 then [digit_char n] else str_nat (n div 10) @ [digit_char (n mod 10)])"

declare str_nat.simps [simp del]

definition str_int :: "int \<Rightarrow> string" where
  "str_int i = (if i < 0 then CHR ''-'' # str_nat (nat (- i)) else str_nat (nat i))"

text \<open>\<open>d.get(key, default)\<close>: only a \<open>dict\<close> has the method.\<close>

definition dict_get :: "json \<Rightarrow> string \<Rightarrow> json \<Rightarrow> py_error + json" where
  "dict_get d k dflt =
     (case d of
        JObj kvs \<Rightarrow> (case map_of kvs k of None \<Rightarrow> Inr dflt | Some v \<Rightarrow> Inr v)
      | _ \<Rightarrow> Inl AttributeError)"

text \<open>\<open>x[key]\<close> with a string key: a missing key of a \<open>dict\<close> is a \<open>KeyError\<close>, a
  list or a string refuses the key, the other values cannot be subscripted.\<close>

definition getitem :: "json \<Rightarrow> string \<Rightarrow> py_error + json" where
  "getitem x k =
     (case x of
        JObj kvs \<Rightarrow> (case map_of kvs k of None \<Rightarrow> Inl (KeyError (JStr k)) | Some v \<Rightarrow> Inr v)
      | _ \<Rightarrow> Inl TypeError)"

text \<open>\<open>x[i]\<close> with an integer: negative indices count from the end; a \<open>dict\<close> parsed from
  JSON has string keys only.\<close>

definition index_list :: "'a list \<Rightarrow> int \<Rightarrow> py_error + 'a" where
  "index_list xs i =
     (if 0 \<le> i \<and> i < int (length xs) then Inr (xs ! nat i)
      else if i < 0 \<and> - i \<le> int (length xs) then Inr (xs ! nat (int (length xs) + i))
      else Inl IndexError)"

definition getitem_int :: "json \<Rightarrow> int \<Rightarrow> py_error + json" where
  "getitem_int x i =
     (case x of
        JArr xs \<Rightarrow> index_list xs i
      | JStr s \<Rightarrow> and_then (index_list s i) (\<lambda>ch. Inr (JStr [ch]))
      | JObj kvs \<Rightarrow> Inl (KeyError (JInt i))
      | _ \<Rightarrow> Inl TypeError)"

text \<open>\<open>for v in x\<close>: the elements of a list, the keys of a \<open>dict\<close>, the characters of a
  string.\<close>

definition py_iter :: "json \<Rightarrow> py_error + json list" where
  "py_iter x =
     (case x of
        JArr xs \<Rightarrow> Inr xs
      | JObj kvs \<Rightarrow> Inr (map (\<lambda>kv. JStr (fst kv)) kvs)
      | JStr s \<Rightarrow> Inr (map (\<lambda>ch. JStr [ch]) s)
      | _ \<Rightarrow> Inl TypeError)"

text \<open>A list comprehension \<open>[f(v) for v in vs]\<close>: left to right, the first failure ends it.\<close>

fun comprehension :: "('a \<Rightarrow> py_error + 'b) \<Rightarrow> 'a list \<Rightarrow> py_error + 'b list" where
  "comprehension f [] = Inr []"
| "comprehension f (v # vs) =
     (case f v of
        Inl e \<Rightarrow> Inl e
      | Inr y \<Rightarrow> (case comprehension f vs of Inl e \<Rightarrow> Inl e | Inr ys \<Rightarrow> Inr (y # ys)))"

text \<open>
  \<open>float(n)\<close> for an integer raises \<open>OverflowError\<close> when \<open>n\<close> rounds beyond the
  largest float: from \<open>2^1024 - 2^970\<close> on, the midpoint between the largest float
  \<open>2^1024 - 2^971\<close> and \<open>2^1024\<close>.
\<close>

definition overflows_float :: "int \<Rightarrow> bool" where
  "overflows_float n = (2 ^ 1024 - 2 ^ 970 \<le> \<bar>n\<bar>)"

text \<open>
  \<open>now + x\<close> for a float \<open>now\<close>, with \<open>rnd\<close> the rounding to the nearest float: an
  integer is converted to a float first, which can overflow; a float and a boolean add;
  anything else is a \<open>TypeError\<close>.
\<close>

definition float_add :: "(real \<Rightarrow> real) \<Rightarrow> real \<Rightarrow> json \<Rightarrow> py_error + real" where
  "float_add rnd now x =
     (case x of
        JInt n \<Rightarrow>
          if overflows_float n then Inl OverflowError
          else Inr (rnd (now + rnd (real_of_int n)))
      | JFloat r \<Rightarrow> Inr (rnd (now + r))
      | JBool b \<Rightarrow> Inr (rnd (now + (if b then 1 else 0)))
      | _ \<Rightarrow> Inl TypeError)"

section \<open>The world outside the connector\<close>

text \<open>
  The process environment, the clock and the two HTTP servers are inputs. The clock is the
  sequence of values that successive calls of \<open>time()\<close> return; each server is the sequence
  of its replies, the n-th reply answering the n-th request of that kind. The requests
  sent so far are kept in \<open>trace\<close>, oldest first. A header is kept by its content:
  \<open>Basic s\<close> stands for \<open>Basic base64(s)\<close>, \<open>Bearer v\<close> for \<open>Bearer\<close> followed by
  \<open>str(v)\<close>. \<open>fround\<close> is the rounding of a real to the nearest float, the
  arithmetic of the machine. Logging is not modelled.
\<close>

record http_response =
  status_code :: int
  body_text :: string
  body_json :: "json option"

datatype authorization = Basic string | Bearer json

datatype event =
    Post string authorization "(string \<times> string) list"
  | Get string authorization

record world =
  environ :: "string \<Rightarrow> string option"
  clock :: "nat \<Rightarrow> real"
  ticks :: nat
  fround :: "real \<Rightarrow> real"
  token_server :: "nat \<Rightarrow> http_response"
  api_server :: "nat \<Rightarrow> http_response"
  trace :: "event list"

fun is_post :: "event \<Rightarrow> bool" where
  "is_post (Post u a d) = True"
| "is_post (Get u a) = False"

definition posts :: "world \<Rightarrow> nat" where
  "posts w = length (filter is_post (trace w))"

definition gets :: "world \<Rightarrow> nat" where
  "gets w = length (filter (\<lambda>e. \<not> is_post e) (trace w))"

definition getenv :: "world \<Rightarrow> string \<Rightarrow> string option" where
  "getenv w k = environ w k"

definition time :: "world \<Rightarrow> real \<times> world" where
  "time w = (clock w (ticks w), w\<lparr>ticks := Suc (ticks w)\<rparr>)"

definition requests_post ::
  "string \<Rightarrow> authorization \<Rightarrow> (string \<times> string) list \<Rightarrow> world \<Rightarrow> http_response \<times> world" where
  "requests_post url auth data w =
     (token_server w (posts w), w\<lparr>trace := trace w @ [Post url auth data]\<rparr>)"

definition requests_get :: "string \<Rightarrow> authorization \<Rightarrow> world \<Rightarrow> http_response \<times> world" where
  "requests_get url auth w = (api_server w (gets w), w\<lparr>trace := trace w @ [Get url auth]\<rparr>)"

section \<open>SpotifyConnector\<close>

text \<open>
  The instance attributes. \<open>client_id_attr\<close> and \<open>client_secret_attr\<close> are the private
  \<open>_client_id\<close> and \<open>_client_secret\<close>; \<open>access_token\<close> is \<open>JNull\<close> and \<open>token_expiry\<close>
  is \<open>None\<close> until the first authentication.
\<close>

record connector =
  client_id_attr :: "string option"
  client_secret_attr :: "string option"
  token_url :: string
  base_url :: string
  access_token :: json
  token_expiry :: "real option"

text \<open>The two properties. Each returns its result and the instance, whose private
  attribute it may have filled from the environment.\<close>

definition client_id :: "connector \<Rightarrow> world \<Rightarrow> (py_error + string option) \<times> connector" where
  "client_id c w =
     (if client_id_attr c = None then
        (let c1 = c\<lparr>client_id_attr := getenv w ''SPOTIFY_CLIENT_ID''\<rparr>
         in if py_not (client_id_attr c1)
            then (Inl (ValueError ''SPOTIFY_CLIENT_ID environment variable not set.''), c1)
            else (Inr (client_id_attr c1), c1))
      else (Inr (client_id_attr c), c))"

definition client_secret :: "connector \<Rightarrow> world \<Rightarrow> (py_error + string option) \<times> connector" where
  "client_secret c w =
     (if client_secret_attr c = None then
        (let c1 = c\<lparr>client_secret_attr := getenv w ''SPOTIFY_CLIENT_SECRET''\<rparr>
         in if py_not (client_id_attr c1)
            then (Inl (ValueError ''SPOTIFY_CLIENT_SECRET environment variable not set.''), c1)
            else (Inr (client_secret_attr c1), c1))
      else (Inr (client_secret_attr c), c))"

text \<open>
  \<open>authenticate\<close>: the f-string reads \<open>client_id\<close>, then \<open>client_secret\<close>; the POST is
  sent; the body is parsed; only then is the status looked at. On status 200 the
  assignments happen in the order of the source, so a failure between them keeps the
  first.
\<close>

definition authenticate :: "connector \<Rightarrow> world \<Rightarrow> (py_error + unit) \<times> connector \<times> world" where
  "authenticate c w =
     (case client_id c w of
        (Inl e, c1) \<Rightarrow> (Inl e, c1, w)
      | (Inr cid, c1) \<Rightarrow>
     (case client_secret c1 w of
        (Inl e, c2) \<Rightarrow> (Inl e, c2, w)
      | (Inr csecret, c2) \<Rightarrow>
     (let auth_header = fmt cid @ '':'' @ fmt csecret;
          data = [(''grant_type'', ''client_credentials'')];
          (response, w1) = requests_post (token_url c2) (Basic auth_header) data w
      in case body_json response of
           None \<Rightarrow> (Inl JSONDecodeError, c2, w1)
         | Some token_info \<Rightarrow>
             if status_code response = 200 then
               (case getitem token_info ''access_token'' of
                  Inl e \<Rightarrow> (Inl e, c2, w1)
                | Inr tok \<Rightarrow>
                    (let c3 = c2\<lparr>access_token := tok\<rparr>
                     in case getitem token_info ''expires_in'' of
                          Inl e \<Rightarrow> (Inl e, c3, w1)
                        | Inr expires_in \<Rightarrow>
                            (let (now, w2) = time w1
                             in case float_add (fround w2) now expires_in of
                                  Inl e \<Rightarrow> (Inl e, c3, w2)
                                | Inr t \<Rightarrow> (Inr (), c3\<lparr>token_expiry := Some t\<rparr>, w2))))
             else (Inl (Exception ''Failed to authenticate with Spotify API''), c2, w1))))"

text \<open>\<open>__init__\<close>: the instance exists only if the first authentication succeeds.\<close>

definition init :: "string option \<Rightarrow> string option \<Rightarrow> world \<Rightarrow> (py_error + connector) \<times> world" where
  "init cid csecret w =
     (let c = \<lparr>client_id_attr = cid, client_secret_attr = csecret,
               token_url = ''https://accounts.spotify.com/api/token'',
               base_url = ''https://api.spotify.com/v1/'',
               access_token = JNull, token_expiry = None\<rparr>
      in case authenticate c w of
           (Inl e, c1, w1) \<Rightarrow> (Inl e, w1)
         | (Inr u, c1, w1) \<Rightarrow> (Inr c1, w1))"

text \<open>\<open>time() > self.token_expiry\<close>; comparing a float with \<open>None\<close> is a \<open>TypeError\<close>.\<close>

definition is_token_expired :: "connector \<Rightarrow> world \<Rightarrow> (py_error + bool) \<times> world" where
  "is_token_expired c w =
     (let (now, w1) = time w
      in case token_expiry c of
           None \<Rightarrow> (Inl TypeError, w1)
         | Some expiry \<Rightarrow> (Inr (now > expiry), w1))"

definition refresh_token :: "connector \<Rightarrow> world \<Rightarrow> (py_error + unit) \<times> connector \<times> world" where
  "refresh_token c w =
     (case is_token_expired c w of
        (Inl e, w1) \<Rightarrow> (Inl e, c, w1)
      | (Inr expired, w1) \<Rightarrow> if expired then authenticate c w1 else (Inr (), c, w1))"

definition make_request :: "connector \<Rightarrow> world \<Rightarrow> string \<Rightarrow> (py_error + json) \<times> connector \<times> world" where
  "make_request c w endpoint =
     (case refresh_token c w of
        (Inl e, c1, w1) \<Rightarrow> (Inl e, c1, w1)
      | (Inr u, c1, w1) \<Rightarrow>
          (let (response, w2) = requests_get (base_url c1 @ endpoint) (Bearer (access_token c1)) w1
           in if status_code response = 200 then
                (case body_json response of
                   None \<Rightarrow> (Inl JSONDecodeError, c1, w2)
                 | Some j \<Rightarrow> (Inr j, c1, w2))
              else (Inl (Exception (''Error fetching data from Spotify API: ''
                       @ str_int (status_code response) @ '', '' @ body_text response)), c1, w2)))"

text \<open>\<open>get_playlists\<close>: the endpoint is chosen by the truth value of \<open>category_id\<close>
  (lines 95 to 100), the ids are read from the body (lines 106 and 107).\<close>

definition playlists_endpoint :: "string option \<Rightarrow> string" where
  "playlists_endpoint category_id =
     (if \<not> py_not category_id
      then ''browse/categories/'' @ fmt category_id @ ''/playlists''
      else ''browse/featured-playlists'')"

definition playlist_ids :: "json \<Rightarrow> py_error + json list" where
  "playlist_ids data =
     and_then (dict_get data ''playlists'' (JObj [])) (\<lambda>p.
     and_then (dict_get p ''items'' (JArr [])) (\<lambda>playlists.
     and_then (py_iter playlists) (\<lambda>ps.
     comprehension (\<lambda>playlist. getitem playlist ''id'') ps)))"

definition get_playlists ::
  "connector \<Rightarrow> world \<Rightarrow> string option \<Rightarrow> (py_error + json list) \<times> connector \<times> world" where
  "get_playlists c w category_id =
     (case make_request c w (playlists_endpoint category_id) of
        (Inl e, c1, w1) \<Rightarrow> (Inl e, c1, w1)
      | (Inr data, c1, w1) \<Rightarrow> (playlist_ids data, c1, w1))"

text \<open>\<open>get_user_playlists\<close>: one \<open>dict\<close> per item of \<open>items\<close>.\<close>

definition user_playlist :: "json \<Rightarrow> py_error + json" where
  "user_playlist playlist =
     and_then (getitem playlist ''id'') (\<lambda>i.
     and_then (getitem playlist ''name'') (\<lambda>n.
     and_then (getitem playlist ''tracks'') (\<lambda>ts.
     and_then (getitem ts ''total'') (\<lambda>total.
     Inr (JObj [(''id'', i), (''name'', n), (''tracks_count'', total)])))))"

definition get_user_playlists ::
  "connector \<Rightarrow> world \<Rightarrow> (py_error + json list) \<times> connector \<times> world" where
  "get_user_playlists c w =
     (case make_request c w ''me/playlists'' of
        (Inl e, c1, w1) \<Rightarrow> (Inl e, c1, w1)
      | (Inr data, c1, w1) \<Rightarrow>
          (and_then (dict_get data ''items'' (JArr [])) (\<lambda>playlists.
           and_then (py_iter playlists) (\<lambda>ps. comprehension user_playlist ps)), c1, w1))"

text \<open>\<open>get_playlist_tracks\<close>: the \<open>dict\<close> literal evaluates \<open>name\<close>, then \<open>artist\<close>,
  then \<open>id\<close>.\<close>

definition track_detail :: "json \<Rightarrow> py_error + json" where
  "track_detail track =
     and_then (getitem track ''track'') (\<lambda>t1.
     and_then (getitem t1 ''name'') (\<lambda>n.
     and_then (getitem track ''track'') (\<lambda>t2.
     and_then (getitem t2 ''artists'') (\<lambda>artists.
     and_then (getitem_int artists 0) (\<lambda>first.
     and_then (getitem first ''name'') (\<lambda>a.
     and_then (getitem track ''track'') (\<lambda>t3.
     and_then (getitem t3 ''id'') (\<lambda>i.
     Inr (JObj [(''name'', n), (''artist'', a), (''id'', i)])))))))))"

definition track_details :: "json \<Rightarrow> py_error + json list" where
  "track_details data =
     and_then (dict_get data ''items'' (JArr [])) (\<lambda>tracks.
     and_then (py_iter tracks) (\<lambda>ts. comprehension track_detail ts))"

definition get_playlist_tracks ::
  "connector \<Rightarrow> world \<Rightarrow> string \<Rightarrow> (py_error + json list) \<times> connector \<times> world" where
  "get_playlist_tracks c w playlist_id =
     (case make_request c w (''playlists/'' @ playlist_id @ ''/tracks'') of
        (Inl e, c1, w1) \<Rightarrow> (Inl e, c1, w1)
      | (Inr data, c1, w1) \<Rightarrow> (track_details data, c1, w1))"

section \<open>The track record of the specification\<close>

text \<open>
  The shape that the interface description gives for an item of a playlist's tracks,
  \<open>{track: {name, artists: [{name}], id}}\<close>, and the record the specification asks for:
  the track's name, the name of the first entry of its artists list, the track's id.
  \<open>None\<close> when the item has not that shape.
\<close>

definition spec_track_record :: "json \<Rightarrow> json option" where
  "spec_track_record item =
     (case item of
        JObj kvs \<Rightarrow>
          (case map_of kvs ''track'' of
             Some (JObj t) \<Rightarrow>
               (case (map_of t ''name'', map_of t ''artists'', map_of t ''id'') of
                  (Some n, Some (JArr (JObj first # others)), Some i) \<Rightarrow>
                    (case map_of first ''name'' of
                       Some a \<Rightarrow> Some (JObj [(''name'', n), (''artist'', a), (''id'', i)])
                     | None \<Rightarrow> None)
                | _ \<Rightarrow> None)
           | _ \<Rightarrow> None)
      | _ \<Rightarrow> None)"

section \<open>Example inputs\<close>

text \<open>Instances, replies and worlds on which the theorems below are evaluated. The
  numbers of these worlds are small integers, which are floats: rounding leaves them as
  they are.\<close>

definition conn_fresh :: connector where
  "conn_fresh = \<lparr>client_id_attr = Some ''id'', client_secret_attr = Some ''secret'',
       token_url = ''https://accounts.spotify.com/api/token'',
       base_url = ''https://api.spotify.com/v1/'',
       access_token = JStr ''T0'', token_expiry = Some 2000\<rparr>"

definition conn_stale :: connector where
  "conn_stale = conn_fresh\<lparr>token_expiry := Some 500\<rparr>"

definition world_of :: "http_response \<Rightarrow> http_response \<Rightarrow> world" where
  "world_of token_reply api_reply =
     \<lparr>environ = (\<lambda>k. None), clock = (\<lambda>n. 1000 + real n), ticks = 0,
      fround = (\<lambda>x. x),
      token_server = (\<lambda>n. token_reply), api_server = (\<lambda>n. api_reply), trace = []\<rparr>"

definition token_ok :: http_response where
  "token_ok = \<lparr>status_code = 200, body_text = ''{...}'',
     body_json = Some (JObj [(''access_token'', JStr ''T1''), (''expires_in'', JInt 3600)])\<rparr>"

definition api_denied :: http_response where
  "api_denied = \<lparr>status_code = 401, body_text = ''denied'', body_json = None\<rparr>"

definition conn_no_secret :: connector where
  "conn_no_secret = \<lparr>client_id_attr = Some ''abc'', client_secret_attr = None,
       token_url = ''https://accounts.spotify.com/api/token'',
       base_url = ''https://api.spotify.com/v1/'',
       access_token = JNull, token_expiry = None\<rparr>"

definition token_no_expiry :: http_response where
  "token_no_expiry = \<lparr>status_code = 200, body_text = ''{...}'',
     body_json = Some (JObj [(''access_token'', JStr ''T2'')])\<rparr>"

definition token_huge_expiry :: http_response where
  "token_huge_expiry = \<lparr>status_code = 200, body_text = ''{...}'',
     body_json = Some (JObj [(''access_token'', JStr ''T3''), (''expires_in'', JInt (10 ^ 309))])\<rparr>"

definition token_html_500 :: http_response where
  "token_html_500 = \<lparr>status_code = 500, body_text = ''<html>Server Error</html>'',
     body_json = None\<rparr>"

definition token_json_400 :: http_response where
  "token_json_400 = \<lparr>status_code = 400, body_text = ''{...}'',
     body_json = Some (JObj [(''error'', JStr ''invalid_client'')])\<rparr>"

definition track_item :: "string \<Rightarrow> string list \<Rightarrow> string \<Rightarrow> json" where
  "track_item n artists i =
     JObj [(''added_at'', JStr ''2024-01-01''),
           (''track'', JObj [(''id'', JStr i),
                             (''artists'', JArr (map (\<lambda>a. JObj [(''name'', JStr a)]) artists)),
                             (''name'', JStr n)])]"

definition api_tracks :: http_response where
  "api_tracks = \<lparr>status_code = 200, body_text = ''{...}'',
     body_json = Some (JObj [(''items'',
        JArr [track_item ''Song A'' [''Ann'', ''Bob''] ''t1'',
              track_item ''Song B'' [''Cy'', ''Dee'', ''Eve''] ''t2''])])\<rparr>"

definition api_playlists :: http_response where
  "api_playlists = \<lparr>status_code = 200, body_text = ''{...}'',
     body_json = Some (JObj [(''playlists'', JObj [(''items'',
        JArr [JObj [(''id'', JStr ''p1''), (''name'', JStr ''One'')],
              JObj [(''name'', JStr ''Two''), (''id'', JStr ''p2'')]])])])\<rparr>"

section \<open>Effects of the credential properties and of authenticate\<close>

lemmas fixture_defs = conn_fresh_def conn_stale_def world_of_def token_ok_def api_denied_def
  conn_no_secret_def token_no_expiry_def token_huge_expiry_def token_html_500_def
  token_json_400_def
  track_item_def api_tracks_def api_playlists_def

lemmas run_defs = make_request_def refresh_token_def is_token_expired_def authenticate_def
  client_id_def client_secret_def py_not_def fmt_def getenv_def time_def requests_post_def
  requests_get_def posts_def gets_def getitem_def float_add_def overflows_float_def Let_def

lemma client_id_keeps:
  "client_id c w = (r, c1) \<Longrightarrow>
     access_token c1 = access_token c \<and> token_expiry c1 = token_expiry c \<and>
     token_url c1 = token_url c \<and> base_url c1 = base_url c"
  by (auto simp: client_id_def Let_def split: if_splits)

lemma client_secret_keeps:
  "client_secret c w = (r, c1) \<Longrightarrow>
     access_token c1 = access_token c \<and> token_expiry c1 = token_expiry c \<and>
     token_url c1 = token_url c \<and> base_url c1 = base_url c"
  by (auto simp: client_secret_def Let_def split: if_splits)

lemma posts_time [simp]: "posts (snd (time w)) = posts w"
  by (simp add: posts_def time_def)

lemma gets_time [simp]: "gets (snd (time w)) = gets w"
  by (simp add: gets_def time_def)

lemma trace_time [simp]: "trace (snd (time w)) = trace w"
  by (simp add: time_def)

lemma servers_time [simp]:
  "token_server (snd (time w)) = token_server w" "api_server (snd (time w)) = api_server w"
  by (simp_all add: time_def)

lemma requests_post_world:
  "requests_post url a d w = (resp, w1) \<Longrightarrow>
     resp = token_server w (posts w) \<and> trace w1 = trace w @ [Post url a d] \<and>
     posts w1 = Suc (posts w) \<and> gets w1 = gets w \<and>
     api_server w1 = api_server w \<and> token_server w1 = token_server w \<and>
     ticks w1 = ticks w \<and> clock w1 = clock w \<and> fround w1 = fround w"
  by (auto simp: requests_post_def posts_def gets_def)

text \<open>The outcomes of authenticate once both credentials are read.\<close>

lemma authenticate_after_credentials:
  assumes "client_id c w = (Inr cid, c1)" and "client_secret c1 w = (Inr cs, c2)"
  shows "authenticate c w =
     (let resp = token_server w (posts w);
          w1 = w\<lparr>trace := trace w @ [Post (token_url c) (Basic (fmt cid @ '':'' @ fmt cs))
                   [(''grant_type'', ''client_credentials'')]]\<rparr>
      in case body_json resp of
           None \<Rightarrow> (Inl JSONDecodeError, c2, w1)
         | Some token_info \<Rightarrow>
             if status_code resp = 200 then
               (case getitem token_info ''access_token'' of
                  Inl e \<Rightarrow> (Inl e, c2, w1)
                | Inr tok \<Rightarrow>
                    (case getitem token_info ''expires_in'' of
                       Inl e \<Rightarrow> (Inl e, c2\<lparr>access_token := tok\<rparr>, w1)
                     | Inr expires_in \<Rightarrow>
                         (case float_add (fround w) (clock w (ticks w)) expires_in of
                            Inl e \<Rightarrow> (Inl e, c2\<lparr>access_token := tok\<rparr>, w1\<lparr>ticks := Suc (ticks w)\<rparr>)
                          | Inr t \<Rightarrow> (Inr (), c2\<lparr>access_token := tok, token_expiry := Some t\<rparr>,
                                w1\<lparr>ticks := Suc (ticks w)\<rparr>))))
             else (Inl (Exception ''Failed to authenticate with Spotify API''), c2, w1))"
proof -
  have u: "token_url c2 = token_url c"
    using client_id_keeps [OF assms(1)] client_secret_keeps [OF assms(2)] by simp
  show ?thesis
    using assms u
    by (simp add: authenticate_def requests_post_def time_def Let_def
        split: option.splits sum.splits)
qed

lemma authenticate_credentials_fail:
  "client_id c w = (Inl e, c1) \<Longrightarrow> authenticate c w = (Inl e, c1, w)"
  "client_id c w = (Inr cid, c1) \<Longrightarrow> client_secret c1 w = (Inl e, c2) \<Longrightarrow>
     authenticate c w = (Inl e, c2, w)"
  by (simp_all add: authenticate_def)


lemma authenticate_effects:
  assumes "authenticate c w = (r, c', w')"
  shows "gets w' = gets w \<and> posts w' \<le> Suc (posts w) \<and> api_server w' = api_server w \<and>
         base_url c' = base_url c \<and>
         (trace w' = trace w \<or> (\<exists>a d. trace w' = trace w @ [Post (token_url c) a d]))"
proof (cases "client_id c w")
  case (Pair r1 c1)
  note p1 = this
  show ?thesis
  proof (cases r1)
    case (Inl e)
    with p1 assms show ?thesis
      using client_id_keeps [OF p1] by (simp add: authenticate_credentials_fail(1))
  next
    case (Inr cid)
    note i1 = this
    show ?thesis
    proof (cases "client_secret c1 w")
      case (Pair r2 c2)
      note p2 = this
      have b: "base_url c2 = base_url c"
        using client_id_keeps [OF p1] client_secret_keeps [OF p2] by simp
      show ?thesis
      proof (cases r2)
        case (Inl e)
        with p1 i1 p2 assms b show ?thesis
          by (simp add: authenticate_credentials_fail(2))
      next
        case (Inr cs)
        then show ?thesis
          using assms b authenticate_after_credentials [of c w cid c1 cs c2] p1 i1 p2
          by (auto simp: Let_def posts_def gets_def split: option.splits sum.splits if_splits)
      qed
    qed
  qed
qed

lemma authenticate_success:
  assumes "authenticate c w = (Inr u, c', w')"
  shows "\<exists>a dd d ex t. trace w' = trace w @ [Post (token_url c) a dd] \<and>
           posts w' = Suc (posts w) \<and>
           status_code (token_server w (posts w)) = 200 \<and>
           body_json (token_server w (posts w)) = Some d \<and>
           getitem d ''access_token'' = Inr (access_token c') \<and>
           getitem d ''expires_in'' = Inr ex \<and>
           float_add (fround w) (clock w (ticks w)) ex = Inr t \<and> token_expiry c' = Some t"
proof (cases "client_id c w")
  case (Pair r1 c1)
  note p1 = this
  show ?thesis
  proof (cases r1)
    case (Inl e)
    with p1 assms show ?thesis
      by (simp add: authenticate_credentials_fail(1))
  next
    case (Inr cid)
    note i1 = this
    show ?thesis
    proof (cases "client_secret c1 w")
      case (Pair r2 c2)
      note p2 = this
      show ?thesis
      proof (cases r2)
        case (Inl e)
        with p1 i1 p2 assms show ?thesis
          by (simp add: authenticate_credentials_fail(2))
      next
        case (Inr cs)
        then show ?thesis
          using assms authenticate_after_credentials [of c w cid c1 cs c2] p1 i1 p2
          by (auto simp: Let_def posts_def split: option.splits sum.splits if_splits)
      qed
    qed
  qed
qed

lemma is_token_expired_world:
  "is_token_expired c w = (x, w1) \<Longrightarrow>
     trace w1 = trace w \<and> posts w1 = posts w \<and> gets w1 = gets w \<and>
     token_server w1 = token_server w \<and> api_server w1 = api_server w"
  by (auto simp: is_token_expired_def time_def posts_def gets_def split: option.splits)


lemma refresh_token_world:
  assumes "refresh_token c w = (r, c1, w1)"
  shows "gets w1 = gets w \<and> api_server w1 = api_server w \<and> base_url c1 = base_url c"
proof (cases "is_token_expired c w")
  case (Pair x w0)
  note iw = is_token_expired_world [OF Pair]
  show ?thesis
  proof (cases x)
    case (Inl e)
    with Pair assms iw show ?thesis by (simp add: refresh_token_def)
  next
    case (Inr b)
    show ?thesis
    proof (cases b)
      case True
      with Pair Inr assms have "authenticate c w0 = (r, c1, w1)"
        by (simp add: refresh_token_def)
      from authenticate_effects [OF this] iw show ?thesis by simp
    next
      case False
      with Pair Inr assms iw show ?thesis by (simp add: refresh_token_def)
    qed
  qed
qed

lemma make_request_after_refresh:
  assumes "refresh_token c w = (Inr u, c1, w1)"
  shows "make_request c w endpoint =
     (let resp = api_server w (gets w);
          w2 = w1\<lparr>trace := trace w1 @ [Get (base_url c @ endpoint) (Bearer (access_token c1))]\<rparr>
      in if status_code resp = 200 then
           (case body_json resp of
              None \<Rightarrow> (Inl JSONDecodeError, c1, w2)
            | Some j \<Rightarrow> (Inr j, c1, w2))
         else (Inl (Exception (''Error fetching data from Spotify API: ''
                  @ str_int (status_code resp) @ '', '' @ body_text resp)), c1, w2))"
  using assms refresh_token_world [OF assms]
  by (simp add: make_request_def requests_get_def Let_def split: option.splits)

lemma comprehension_all:
  "map g xs = map Some ys \<Longrightarrow> (\<And>x y. g x = Some y \<Longrightarrow> f x = Inr y) \<Longrightarrow>
     comprehension f xs = Inr ys"
proof (induction xs arbitrary: ys)
  case Nil
  then show ?case by simp
next
  case (Cons x xs)
  then obtain y ys' where ys: "ys = y # ys'" "g x = Some y" "map g xs = map Some ys'"
    by (cases ys) auto
  from Cons.IH [OF ys(3) Cons.prems(2)] Cons.prems(2) [OF ys(2)] ys(1)
  show ?case by simp
qed

lemma spec_track_record_sound:
  assumes "spec_track_record item = Some r"
  shows "track_detail item = Inr r"
proof -
  from assms obtain kvs t n first others i a where
    s: "item = JObj kvs" "map_of kvs ''track'' = Some (JObj t)" "map_of t ''name'' = Some n"
       "map_of t ''artists'' = Some (JArr (JObj first # others))" "map_of t ''id'' = Some i"
       "map_of first ''name'' = Some a" "r = JObj [(''name'', n), (''artist'', a), (''id'', i)]"
    by (auto simp: spec_track_record_def split: json.splits option.splits list.splits)
  then show ?thesis
    by (simp add: track_detail_def getitem_def getitem_int_def index_list_def and_then_def)
qed

section \<open>Token refresh before a request\<close>

text \<open>
  Claim C1. \<open>make_request\<close> runs \<open>refresh_token\<close> before anything else, and
  \<open>refresh_token\<close> is decided by one reading of \<open>is_token_expired\<close>. When the reading
  is false, nothing is re-authenticated: the instance is unchanged, no POST is sent and
  the GET carries the stored token. When it is true, \<open>refresh_token\<close> is one run of
  \<open>authenticate\<close>: at most one POST is sent, a failure of that run is the failure of
  \<open>make_request\<close> and no GET follows it, and after a success the GET carries the token
  that the reply to that POST supplied. When the reading itself fails, no request is sent.
\<close>

theorem make_request_refreshes_at_most_once:
  assumes "make_request c w endpoint = (r, c', w')"
      and "is_token_expired c w = (x, w1)"
  shows "(x = Inr False \<longrightarrow>
            refresh_token c w = (Inr (), c, w1) \<and> c' = c \<and> posts w' = posts w \<and>
            trace w' = trace w @ [Get (base_url c @ endpoint) (Bearer (access_token c))])
       \<and> (x = Inr True \<longrightarrow>
            refresh_token c w = authenticate c w1 \<and> c' = fst (snd (authenticate c w1)) \<and>
            posts w' \<le> Suc (posts w) \<and>
            (\<forall>e. fst (authenticate c w1) = Inl e \<longrightarrow>
               r = Inl e \<and> w' = snd (snd (authenticate c w1)) \<and> gets w' = gets w) \<and>
            (fst (authenticate c w1) = Inr () \<longrightarrow>
               posts w' = Suc (posts w) \<and>
               (\<exists>d. body_json (token_server w (posts w)) = Some d \<and>
                    getitem d ''access_token'' = Inr (access_token c')) \<and>
               (\<exists>a d. trace w' = trace w @ [Post (token_url c) a d,
                    Get (base_url c @ endpoint) (Bearer (access_token c'))])))
       \<and> (\<forall>e. x = Inl e \<longrightarrow> r = Inl e \<and> c' = c \<and> trace w' = trace w)"
proof (intro conjI impI allI)
  note iw = is_token_expired_world [OF assms(2)]
  {
    assume x: "x = Inr False"
    show rf: "refresh_token c w = (Inr (), c, w1)"
      using assms(2) x by (simp add: refresh_token_def)
    show "c' = c"
      using assms(1) rf by (auto simp: make_request_def requests_get_def Let_def split: if_splits option.splits)
    show "posts w' = posts w"
      using assms(1) rf iw by (auto simp: make_request_def requests_get_def posts_def Let_def split: if_splits option.splits)
    show "trace w' = trace w @ [Get (base_url c @ endpoint) (Bearer (access_token c))]"
      using assms(1) rf iw by (auto simp: make_request_def requests_get_def Let_def split: if_splits option.splits)
  }
  {
    fix e assume x: "x = Inl e"
    have rf: "refresh_token c w = (Inl e, c, w1)"
      using assms(2) x by (simp add: refresh_token_def)
    show "r = Inl e" "c' = c" "trace w' = trace w"
      using assms(1) rf iw by (auto simp: make_request_def)
  }
  {
    assume x: "x = Inr True"
    obtain ra ca wa where a: "authenticate c w1 = (ra, ca, wa)"
      by (cases "authenticate c w1") auto
    note ae = authenticate_effects [OF a]
    show rf: "refresh_token c w = authenticate c w1"
      using assms(2) x by (simp add: refresh_token_def)
    show "c' = fst (snd (authenticate c w1))"
      using assms(1) rf a
      by (auto simp: make_request_def requests_get_def Let_def split: if_splits option.splits sum.splits)
    show "posts w' \<le> Suc (posts w)"
      using assms(1) rf a ae iw
      by (auto simp: make_request_def requests_get_def posts_def Let_def split: if_splits option.splits sum.splits)
    {
      fix e assume "fst (authenticate c w1) = Inl e"
      then have ra: "ra = Inl e" using a by simp
      show "r = Inl e" "w' = snd (snd (authenticate c w1))" "gets w' = gets w"
        using assms(1) rf a ra ae iw by (auto simp: make_request_def)
    }
    {
      assume "fst (authenticate c w1) = Inr ()"
      then have a': "authenticate c w1 = (Inr (), ca, wa)" using a by simp
      from authenticate_success [OF a'] obtain au dd d where
        s: "trace wa = trace w1 @ [Post (token_url c) au dd]" "posts wa = Suc (posts w1)"
           "body_json (token_server w1 (posts w1)) = Some d"
           "getitem d ''access_token'' = Inr (access_token ca)"
        by blast
      have mr: "c' = ca \<and> trace w' = trace wa @ [Get (base_url ca @ endpoint) (Bearer (access_token ca))]"
        using assms(1) rf a'
        by (auto simp: make_request_def requests_get_def Let_def split: if_splits option.splits)
      show "posts w' = Suc (posts w)"
        using mr s iw by (simp add: posts_def)
      show "\<exists>d. body_json (token_server w (posts w)) = Some d \<and>
                    getitem d ''access_token'' = Inr (access_token c')"
        using mr s iw by simp
      show "\<exists>a d. trace w' = trace w @ [Post (token_url c) a d,
                    Get (base_url c @ endpoint) (Bearer (access_token c'))]"
        using mr s iw ae by simp
    }
  }
qed


theorem make_request_refreshes_at_most_once_witness:
  "is_token_expired conn_stale (world_of token_ok api_denied)
     = (Inr True, (world_of token_ok api_denied)\<lparr>ticks := Suc 0\<rparr>)
   \<and> posts (snd (snd (make_request conn_stale (world_of token_ok api_denied) ''me/playlists''))) = 1
   \<and> (\<exists>a d. trace (snd (snd (make_request conn_stale (world_of token_ok api_denied) ''me/playlists'')))
        = [Post ''https://accounts.spotify.com/api/token'' a d,
           Get ''https://api.spotify.com/v1/me/playlists'' (Bearer (JStr ''T1''))])"
proof -
  let ?w = "world_of token_ok api_denied"
  let ?m = "make_request conn_stale ?w ''me/playlists''"
  have h1: "?m = (fst ?m, fst (snd ?m), snd (snd ?m))" by simp
  have h2: "is_token_expired conn_stale ?w = (Inr True, ?w\<lparr>ticks := Suc 0\<rparr>)"
    by (simp add: is_token_expired_def time_def fixture_defs)
  have a: "authenticate conn_stale (?w\<lparr>ticks := Suc 0\<rparr>) =
     (Inr (), conn_stale\<lparr>access_token := JStr ''T1'', token_expiry := Some 4601\<rparr>,
      ?w\<lparr>ticks := 2, trace := [Post ''https://accounts.spotify.com/api/token''
         (Basic ''id:secret'') [(''grant_type'', ''client_credentials'')]]\<rparr>)"
    by (simp add: run_defs fixture_defs)
  have t: "trace ?w = []" "posts ?w = 0"
    "token_url conn_stale = ''https://accounts.spotify.com/api/token''"
    "base_url conn_stale @ ''me/playlists'' = ''https://api.spotify.com/v1/me/playlists''"
    by (simp_all add: fixture_defs posts_def)
  show ?thesis
    using make_request_refreshes_at_most_once [OF h1 h2] h2 a t by auto
qed

section \<open>Token freshness\<close>

text \<open>
  Claim C8. With a stored expiry instant, \<open>is_token_expired\<close> answers true exactly when
  the clock reading of the call is strictly greater than the stored instant: a reading
  equal to the expiry answers false, a reading past it answers true.
\<close>

theorem is_token_expired_strict:
  "fst (is_token_expired (c\<lparr>token_expiry := Some expiry\<rparr>) w) = Inr (expiry < fst (time w))
   \<and> fst (is_token_expired (c\<lparr>token_expiry := Some (fst (time w))\<rparr>) w) = Inr False
   \<and> fst (is_token_expired (c\<lparr>token_expiry := Some (fst (time w) - 1)\<rparr>) w) = Inr True"
  by (simp add: is_token_expired_def time_def)

section \<open>Endpoint selection of get_playlists\<close>

text \<open>
  Claim C9. The empty string as \<open>category_id\<close> selects the featured-playlists endpoint,
  not \<open>browse/categories//playlists\<close>, because the branch tests the truth value of
  \<open>category_id\<close>: with a fresh token, the one request that \<open>get_playlists\<close> sends for
  the empty string is the GET of \<open>browse/featured-playlists\<close>, and the whole call does
  what the call with \<open>None\<close> does.
\<close>

theorem get_playlists_empty_category:
  assumes "refresh_token c w = (Inr u, c1, w1)"
  shows "playlists_endpoint (Some '''') = ''browse/featured-playlists''
       \<and> playlists_endpoint (Some '''') \<noteq> ''browse/categories//playlists''
       \<and> trace (snd (snd (get_playlists c w (Some ''''))))
           = trace w1 @ [Get (base_url c @ ''browse/featured-playlists'') (Bearer (access_token c1))]
       \<and> last (trace (snd (snd (get_playlists c w (Some ''''))))) \<noteq>
           Get (base_url c @ ''browse/categories//playlists'') (Bearer (access_token c1))
       \<and> gets (snd (snd (get_playlists c w (Some '''')))) = Suc (gets w)
       \<and> get_playlists c w (Some '''') = get_playlists c w None"
proof -
  have e: "playlists_endpoint (Some '''') = ''browse/featured-playlists''"
    by (simp add: playlists_endpoint_def py_not_def)
  have t: "trace (snd (snd (get_playlists c w (Some ''''))))
           = trace w1 @ [Get (base_url c @ ''browse/featured-playlists'') (Bearer (access_token c1))]"
    using make_request_after_refresh [OF assms, of "''browse/featured-playlists''"]
    by (simp add: get_playlists_def e Let_def split: option.splits)
  have g: "gets (snd (snd (get_playlists c w (Some '''')))) = Suc (gets w)"
    using t refresh_token_world [OF assms] by (simp add: gets_def)
  show ?thesis
    using e t g by (simp add: get_playlists_def playlists_endpoint_def py_not_def)
qed

theorem get_playlists_empty_category_witness:
  "refresh_token conn_fresh (world_of token_ok api_playlists)
     = (Inr (), conn_fresh, (world_of token_ok api_playlists)\<lparr>ticks := Suc 0\<rparr>)
   \<and> trace (snd (snd (get_playlists conn_fresh (world_of token_ok api_playlists) (Some ''''))))
       = [Get ''https://api.spotify.com/v1/browse/featured-playlists'' (Bearer (JStr ''T0''))]
   \<and> fst (get_playlists conn_fresh (world_of token_ok api_playlists) (Some ''''))
       = fst (get_playlists conn_fresh (world_of token_ok api_playlists) None)"
proof -
  let ?w = "world_of token_ok api_playlists"
  have h: "refresh_token conn_fresh ?w = (Inr (), conn_fresh, ?w\<lparr>ticks := Suc 0\<rparr>)"
    by (simp add: refresh_token_def is_token_expired_def time_def fixture_defs)
  have b: "base_url conn_fresh = ''https://api.spotify.com/v1/''"
    "access_token conn_fresh = JStr ''T0''" "trace ?w = []"
    by (simp_all add: fixture_defs)
  note T = get_playlists_empty_category [OF h]
  have t: "trace (snd (snd (get_playlists conn_fresh ?w (Some ''''))))
       = [Get ''https://api.spotify.com/v1/browse/featured-playlists'' (Bearer (JStr ''T0''))]"
    using T [THEN conjunct2, THEN conjunct2, THEN conjunct1] b by simp
  have e: "get_playlists conn_fresh ?w (Some '''') = get_playlists conn_fresh ?w None"
    using T by (elim conjE)
  show ?thesis
    using h t e by simp
qed

section \<open>Credential resolution\<close>

text \<open>The \<open>client_id\<close> property fails when neither source has a value.\<close>

lemma client_id_unset_raises:
  "client_id (c\<lparr>client_id_attr := None\<rparr>) (w\<lparr>environ := (\<lambda>k. None)\<rparr>)
     = (Inl (ValueError ''SPOTIFY_CLIENT_ID environment variable not set.''),
        c\<lparr>client_id_attr := None\<rparr>)"
  by (simp add: client_id_def getenv_def py_not_def)

text \<open>
  Claim C2 on the code: with a client id passed to the constructor, no client secret passed
  and \<open>SPOTIFY_CLIENT_SECRET\<close> unset, the \<open>client_secret\<close> property returns \<open>None\<close>
  without an error (its test reads \<open>_client_id\<close>), the constructor succeeds and the
  POST carries the credentials \<open>abc:None\<close>.
\<close>

theorem client_secret_unset_returns_None:
  "environ (world_of token_ok api_denied) ''SPOTIFY_CLIENT_SECRET'' = None
   \<and> client_secret_attr conn_no_secret = None
   \<and> client_secret conn_no_secret (world_of token_ok api_denied) = (Inr None, conn_no_secret)
   \<and> fst (init (Some ''abc'') None (world_of token_ok api_denied))
       = Inr (conn_no_secret\<lparr>access_token := JStr ''T1'', token_expiry := Some 4600\<rparr>)
   \<and> trace (snd (init (Some ''abc'') None (world_of token_ok api_denied)))
       = [Post ''https://accounts.spotify.com/api/token'' (Basic ''abc:None'')
            [(''grant_type'', ''client_credentials'')]]"
  by (simp add: init_def run_defs fixture_defs)

section \<open>Failures of authenticate\<close>

text \<open>
  Claim C10. \<open>authenticate\<close> parses the body before it looks at the status: once both
  credentials are read and the POST is sent, a reply whose body is not JSON ends the call
  with the body-parse error whatever its status (a non-200 status included), not with the
  authentication error, and both token fields are as before.
\<close>

theorem authenticate_parses_body_before_status:
  assumes "client_id c w = (Inr cid, c1)" and "client_secret c1 w = (Inr cs, c2)"
      and "body_json (token_server w (posts w)) = None"
  shows "fst (authenticate c w) = Inl JSONDecodeError
       \<and> fst (authenticate c w) \<noteq> Inl (Exception ''Failed to authenticate with Spotify API'')
       \<and> access_token (fst (snd (authenticate c w))) = access_token c
       \<and> token_expiry (fst (snd (authenticate c w))) = token_expiry c
       \<and> posts (snd (snd (authenticate c w))) = Suc (posts w)"
  using authenticate_after_credentials [OF assms(1,2)] assms(3)
    client_id_keeps [OF assms(1)] client_secret_keeps [OF assms(2)]
  by (simp add: posts_def)

theorem authenticate_parses_body_before_status_witness:
  "status_code (token_server (world_of token_html_500 api_denied)
      (posts (world_of token_html_500 api_denied))) = 500
   \<and> body_json (token_server (world_of token_html_500 api_denied)
      (posts (world_of token_html_500 api_denied))) = None
   \<and> fst (authenticate conn_stale (world_of token_html_500 api_denied)) = Inl JSONDecodeError
   \<and> access_token (fst (snd (authenticate conn_stale (world_of token_html_500 api_denied))))
        = JStr ''T0''
   \<and> token_expiry (fst (snd (authenticate conn_stale (world_of token_html_500 api_denied))))
        = Some 500"
proof -
  let ?w = "world_of token_html_500 api_denied"
  have h1: "client_id conn_stale ?w = (Inr (Some ''id''), conn_stale)"
    by (simp add: client_id_def fixture_defs)
  have h2: "client_secret conn_stale ?w = (Inr (Some ''secret''), conn_stale)"
    by (simp add: client_secret_def fixture_defs)
  have h3: "body_json (token_server ?w (posts ?w)) = None"
    by (simp add: fixture_defs)
  have s: "status_code (token_server ?w (posts ?w)) = 500"
    by (simp add: fixture_defs)
  have t: "access_token conn_stale = JStr ''T0''" "token_expiry conn_stale = Some 500"
    by (simp_all add: fixture_defs)
  show ?thesis
    using authenticate_parses_body_before_status [OF h1 h2 h3] h3 s t by simp
qed




section \<open>The outcome of make_request\<close>

text \<open>
  Claim C5. Once the token is fresh and the GET is sent, a reply with a status other than
  200 makes \<open>make_request\<close> fail with the \<open>Exception\<close> whose message holds the status
  code in decimal and the raw body text; the failure is the result of the call. A reply
  with status 200 makes it return the parsed JSON body. In both cases one GET was sent.
\<close>

theorem make_request_status:
  assumes "refresh_token c w = (Inr u, c1, w1)"
  shows "(status_code (api_server w (gets w)) \<noteq> 200 \<longrightarrow>
            fst (make_request c w endpoint) =
              Inl (Exception (''Error fetching data from Spotify API: ''
                @ str_int (status_code (api_server w (gets w))) @ '', ''
                @ body_text (api_server w (gets w)))))
       \<and> (\<forall>j. status_code (api_server w (gets w)) = 200 \<and>
               body_json (api_server w (gets w)) = Some j \<longrightarrow>
            fst (make_request c w endpoint) = Inr j)
       \<and> gets (snd (snd (make_request c w endpoint))) = Suc (gets w)"
  using make_request_after_refresh [OF assms, of endpoint] refresh_token_world [OF assms]
  by (auto simp: Let_def gets_def split: option.splits)

theorem make_request_status_witness:
  "refresh_token conn_fresh (world_of token_ok api_denied)
     = (Inr (), conn_fresh, (world_of token_ok api_denied)\<lparr>ticks := Suc 0\<rparr>)
   \<and> status_code (api_server (world_of token_ok api_denied) (gets (world_of token_ok api_denied)))
       = 401
   \<and> fst (make_request conn_fresh (world_of token_ok api_denied) ''me/playlists'')
       = Inl (Exception ''Error fetching data from Spotify API: 401, denied'')"
proof -
  let ?w = "world_of token_ok api_denied"
  have h: "refresh_token conn_fresh ?w = (Inr (), conn_fresh, ?w\<lparr>ticks := Suc 0\<rparr>)"
    by (simp add: refresh_token_def is_token_expired_def time_def fixture_defs)
  have s: "status_code (api_server ?w (gets ?w)) = 401" "body_text (api_server ?w (gets ?w)) = ''denied''"
    by (simp_all add: fixture_defs)
  have n: "str_int 401 = ''401''"
    by (simp add: str_int_def str_nat.simps digit_char_def)
  show ?thesis
    using make_request_status [OF h, of "''me/playlists''"] h s n by simp
qed


section \<open>get_playlists\<close>




section \<open>get_playlist_tracks\<close>

text \<open>
  Claim C7. When \<open>make_request\<close> returns (on status 200) a body whose \<open>items\<close> all
  have the expected shape, \<open>get_playlist_tracks\<close> returns one record per item, in the
  order of the response, each made of the track's name, the name of the first entry of
  its artists list and the track's id.
\<close>

theorem get_playlist_tracks_records:
  assumes "make_request c w (''playlists/'' @ playlist_id @ ''/tracks'') = (Inr (JObj d), c1, w1)"
      and "map_of d ''items'' = Some (JArr items)"
      and "map spec_track_record items = map Some records"
  shows "get_playlist_tracks c w playlist_id = (Inr records, c1, w1)
       \<and> length records = length items"
proof -
  have "comprehension track_detail items = Inr records"
    by (rule comprehension_all [OF assms(3)]) (rule spec_track_record_sound)
  then have "get_playlist_tracks c w playlist_id = (Inr records, c1, w1)"
    using assms(1,2)
    by (simp add: get_playlist_tracks_def track_details_def dict_get_def py_iter_def and_then_def)
  moreover have "length records = length items"
    using assms(3) by (metis length_map)
  ultimately show ?thesis by simp
qed

theorem get_playlist_tracks_records_witness:
  "make_request conn_fresh (world_of token_ok api_tracks) (''playlists/'' @ ''abc'' @ ''/tracks'')
     = (Inr (JObj [(''items'',
          JArr [track_item ''Song A'' [''Ann'', ''Bob''] ''t1'',
                track_item ''Song B'' [''Cy'', ''Dee'', ''Eve''] ''t2''])]), conn_fresh,
        (world_of token_ok api_tracks)\<lparr>ticks := Suc 0,
           trace := [Get ''https://api.spotify.com/v1/playlists/abc/tracks''
                       (Bearer (JStr ''T0''))]\<rparr>)
   \<and> fst (get_playlist_tracks conn_fresh (world_of token_ok api_tracks) ''abc'')
     = Inr [JObj [(''name'', JStr ''Song A''), (''artist'', JStr ''Ann''), (''id'', JStr ''t1'')],
            JObj [(''name'', JStr ''Song B''), (''artist'', JStr ''Cy''), (''id'', JStr ''t2'')]]"
proof -
  let ?w = "world_of token_ok api_tracks"
  let ?items = "[track_item ''Song A'' [''Ann'', ''Bob''] ''t1'',
                 track_item ''Song B'' [''Cy'', ''Dee'', ''Eve''] ''t2'']"
  let ?w1 = "?w\<lparr>ticks := Suc 0,
           trace := [Get ''https://api.spotify.com/v1/playlists/abc/tracks''
                       (Bearer (JStr ''T0''))]\<rparr>"
  have h1: "make_request conn_fresh ?w (''playlists/'' @ ''abc'' @ ''/tracks'')
     = (Inr (JObj [(''items'', JArr ?items)]), conn_fresh, ?w1)"
    by (simp add: make_request_def refresh_token_def is_token_expired_def time_def
        requests_get_def gets_def conn_fresh_def world_of_def api_tracks_def)
  have h2: "map_of [(''items'', JArr ?items)] ''items'' = Some (JArr ?items)"
    by simp
  have h3: "map spec_track_record ?items = map Some
     [JObj [(''name'', JStr ''Song A''), (''artist'', JStr ''Ann''), (''id'', JStr ''t1'')],
      JObj [(''name'', JStr ''Song B''), (''artist'', JStr ''Cy''), (''id'', JStr ''t2'')]]"
    by (simp add: spec_track_record_def track_item_def)
  show ?thesis
    using get_playlist_tracks_records [OF h1 h2 h3] h1 by simp
qed


section \<open>Replacement of the token\<close>


text \<open>
  The same happens with an \<open>expires_in\<close> that is a number too large for a float: the
  addition raises \<open>OverflowError\<close> after the access token was replaced.
\<close>

lemma authenticate_expires_in_too_large:
  "fst (authenticate conn_stale (world_of token_huge_expiry api_denied)) = Inl OverflowError
   \<and> access_token (fst (snd (authenticate conn_stale (world_of token_huge_expiry api_denied))))
       = JStr ''T3''
   \<and> token_expiry (fst (snd (authenticate conn_stale (world_of token_huge_expiry api_denied))))
       = token_expiry conn_stale"
  by (simp add: run_defs fixture_defs)



end
